theory Spec2Isabelle
  imports Main "HOL-Library.AList"
begin

section \<open>Python exceptions\<close>

text \<open>
  An exception value is represented by the linearised ancestry of its class, most derived
  class first. A handler \<^verbatim>\<open>except C\<close> catches exactly the exceptions whose
  ancestry contains \<open>C\<close>.
\<close>

datatype exc = Exc (mro: "string list")

definition isinstance :: "exc \<Rightarrow> string \<Rightarrow> bool" where
  "isinstance e c = (c \<in> set (mro e))"

definition ConnectionError :: exc where
  "ConnectionError = Exc [''ConnectionError'', ''OSError'', ''Exception'', ''BaseException'']"

definition AttributeError :: exc where
  "AttributeError = Exc [''AttributeError'', ''Exception'', ''BaseException'']"

definition KeyError :: exc where
  "KeyError = Exc [''KeyError'', ''LookupError'', ''Exception'', ''BaseException'']"

definition ValueError :: exc where
  "ValueError = Exc [''ValueError'', ''Exception'', ''BaseException'']"

definition ConfigEntryNotReady :: exc where
  "ConfigEntryNotReady =
     Exc [''ConfigEntryNotReady'', ''HomeAssistantError'', ''Exception'', ''BaseException'']"

text \<open>The two exception classes declared at the end of \<^verbatim>\<open>config_flow.py\<close>.\<close>

definition CannotConnect :: exc where
  "CannotConnect =
     Exc [''CannotConnect'', ''HomeAssistantError'', ''Exception'', ''BaseException'']"

definition InvalidAuth :: exc where
  "InvalidAuth =
     Exc [''InvalidAuth'', ''HomeAssistantError'', ''Exception'', ''BaseException'']"

section \<open>Constants of the component\<close>

definition DOMAIN :: string where
  "DOMAIN = ''bmw_connected_drive''"

definition BMW_COMPONENTS :: "string list" where
  "BMW_COMPONENTS = [''binary_sensor'', ''device_tracker'', ''lock'', ''notify'', ''sensor'']"

definition UPDATE_INTERVAL :: nat where
  "UPDATE_INTERVAL = 5"

definition SERVICE_UPDATE_STATE :: string where
  "SERVICE_UPDATE_STATE = ''update_state''"

text \<open>The dictionary \<^verbatim>\<open>_SERVICE_MAP\<close>, in the order it is written.\<close>

definition SERVICE_MAP :: "(string \<times> string) list" where
  "SERVICE_MAP =
     [(''light_flash'', ''trigger_remote_light_flash''),
      (''sound_horn'', ''trigger_remote_horn''),
      (''activate_air_conditioning'', ''trigger_remote_air_conditioning'')]"

section \<open>Data model\<close>

text \<open>
  A configuration that passed \<^verbatim>\<open>ACCOUNT_SCHEMA\<close>: the four keys are present
  (\<^verbatim>\<open>read_only\<close> defaults to false in the schema).
\<close>

record config =
  username :: string
  password :: string
  region :: string
  conf_read_only :: bool

record config_entry =
  entry_id :: string
  entry_data :: config

text \<open>A vehicle of the vendor library, known here only by its VIN.\<close>

record vehicle =
  vehicle_vin :: string

text \<open>
  The vendor library's \<^verbatim>\<open>ConnectedDriveAccount\<close>: the session and its cached
  snapshot of vehicles.
\<close>

record session =
  vehicles :: "vehicle list"

text \<open>
  An update listener is a zero-argument callback of a dependent entity. It is identified
  by a number; calling it either returns or raises.
\<close>

datatype listener = Listener (lid: nat) (outcome: "exc option")

text \<open>The class \<^verbatim>\<open>BMWConnectedDriveAccount\<close>.\<close>

record bmw_account =
  read_only :: bool
  account :: session
  name :: string
  update_listeners :: "listener list"

datatype log_entry =
  DebugAdding string
  | DebugUpdating string nat
  | ErrorNoVehicle string
  | ErrorNoConnection
  | ExceptionLogged exc
  | ExceptionUnexpected

text \<open>
  The part of the host's state the component reads and writes: \<open>data\<close> is
  \<^verbatim>\<open>hass.data.get(DOMAIN)\<close>, a dictionary from entry id to account in insertion
  order; \<open>services\<close> the names registered under the domain; \<open>time_trackers\<close> the
  registered time patterns (account name, minutes, second); \<open>tasks\<close> the tasks created;
  \<open>logged\<close> the log; \<open>notified\<close> the listeners called so far, in call order;
  \<open>remote_calls\<close> the remote-control methods called so far (VIN, method name).
\<close>

record hass =
  data :: "(string \<times> bmw_account) list option"
  services :: "string list"
  time_trackers :: "(string \<times> nat list \<times> nat) list"
  tasks :: "string list"
  logged :: "log_entry list"
  notified :: "nat list"
  remote_calls :: "(string \<times> string) list"

text \<open>
  What the component calls and does not define: the vendor library (building the session
  from the credentials, refreshing the vehicle states; a refresh that raises leaves the
  session as the second component says), the clock, and the host (the result of unloading
  a platform, the truth value of what removing a service returns, the unique ids already
  configured). An instant is a number of microseconds since the epoch, in UTC.
\<close>

record ext =
  connect :: "string \<Rightarrow> string \<Rightarrow> string \<Rightarrow> exc + session"
  update_vehicle_states :: "session \<Rightarrow> exc option \<times> session"
  utcnow :: nat
  forward_entry_unload :: "string \<Rightarrow> bool"
  services_remove :: "string \<Rightarrow> bool"
  configured_ids :: "string list"

section \<open>The account wrapper\<close>

definition add_update_listener :: "bmw_account \<Rightarrow> listener \<Rightarrow> bmw_account" where
  "add_update_listener self l = self\<lparr>update_listeners := update_listeners self @ [l]\<rparr>"

text \<open>The loop \<^verbatim>\<open>for listener in self._update_listeners: listener()\<close>.\<close>

fun call_listeners :: "listener list \<Rightarrow> hass \<Rightarrow> exc option \<times> hass" where
  "call_listeners [] h = (None, h)"
| "call_listeners (l # ls) h =
     (let h' = h\<lparr>notified := notified h @ [lid l]\<rparr> in
      case outcome l of
        Some e \<Rightarrow> (Some e, h')
      | None \<Rightarrow> call_listeners ls h')"

text \<open>The handler \<^verbatim>\<open>except OSError as exception\<close> of \<^verbatim>\<open>update\<close>.\<close>

definition except_OSError :: "exc \<Rightarrow> hass \<Rightarrow> exc option \<times> hass" where
  "except_OSError e h =
     (if isinstance e ''OSError''
      then (None, h\<lparr>logged := logged h @ [ErrorNoConnection, ExceptionLogged e]\<rparr>)
      else (Some e, h))"

text \<open>
  \<^verbatim>\<open>BMWConnectedDriveAccount.update\<close>: the result is the exception that reaches the
  caller, if any, the account and the host state afterwards.
\<close>

definition update :: "ext \<Rightarrow> bmw_account \<Rightarrow> hass \<Rightarrow> exc option \<times> bmw_account \<times> hass" where
  "update env self h =
     (let h1 = h\<lparr>logged := logged h @ [DebugUpdating (name self) (length (update_listeners self))]\<rparr> in
      case update_vehicle_states env (account self) of
        (Some e, s') \<Rightarrow>
          (case except_OSError e h1 of (r, h2) \<Rightarrow> (r, self\<lparr>account := s'\<rparr>, h2))
      | (None, s') \<Rightarrow>
          (case call_listeners (update_listeners self) h1 of
             (Some e, h2) \<Rightarrow>
               (case except_OSError e h2 of (r, h3) \<Rightarrow> (r, self\<lparr>account := s'\<rparr>, h3))
           | (None, h2) \<Rightarrow> (None, self\<lparr>account := s'\<rparr>, h2)))"

section \<open>The update scheduler\<close>

definition minute :: "nat \<Rightarrow> nat" where
  "minute t = (t div 60000000) mod 60"

definition second :: "nat \<Rightarrow> nat" where
  "second t = (t div 1000000) mod 60"

text \<open>Python's \<^verbatim>\<open>range(start, stop, step)\<close> on naturals, for a positive step.\<close>

function range_py :: "nat \<Rightarrow> nat \<Rightarrow> nat \<Rightarrow> nat list" where
  "range_py start stop step =
     (if 0 < step \<and> start < stop then start # range_py (start + step) stop step else [])"
  by pat_completeness auto
termination
  by (relation "measure (\<lambda>(start, stop, step). stop - start)") auto

declare range_py.simps [simp del]

text \<open>
  The time pattern \<^verbatim>\<open>setup_account\<close> hands to \<^verbatim>\<open>track_utc_time_change\<close>:
  the minutes and the second at which the account is refreshed.
\<close>

definition phase :: "nat \<Rightarrow> nat list \<times> nat" where
  "phase now = (range_py (minute now mod UPDATE_INTERVAL) 60 UPDATE_INTERVAL, second now)"

section \<open>The service dispatcher\<close>

text \<open>
  The objects the dispatcher meets while it scans \<^verbatim>\<open>hass.data[DOMAIN]\<close>. Iterating
  a dictionary yields its keys, here the entry ids, which are strings.
\<close>

datatype pyobj = PyStr string | PyAccount bmw_account

definition dict_iter :: "(string \<times> bmw_account) list \<Rightarrow> pyobj list" where
  "dict_iter d = map (\<lambda>(k, v). PyStr k) d"

text \<open>\<^verbatim>\<open>obj.read_only\<close>: a string has no such attribute.\<close>

fun getattr_read_only :: "pyobj \<Rightarrow> exc + bool" where
  "getattr_read_only (PyStr s) = Inl AttributeError"
| "getattr_read_only (PyAccount a) = Inr (read_only a)"

text \<open>
  \<^verbatim>\<open>obj.get_vehicle(vin)\<close>: neither a string nor \<^verbatim>\<open>BMWConnectedDriveAccount\<close>
  (whose methods are \<^verbatim>\<open>update\<close> and \<^verbatim>\<open>add_update_listener\<close>) has such an
  attribute.
\<close>

fun get_vehicle :: "pyobj \<Rightarrow> string \<Rightarrow> exc + vehicle option" where
  "get_vehicle (PyStr s) v = Inl AttributeError"
| "get_vehicle (PyAccount a) v = Inl AttributeError"

text \<open>
  The comprehension \<^verbatim>\<open>[account for account in hass.data[DOMAIN] if not account.read_only]\<close>.
\<close>

fun not_read_only :: "pyobj list \<Rightarrow> exc + pyobj list" where
  "not_read_only [] = Inr []"
| "not_read_only (x # xs) =
     (case getattr_read_only x of
        Inl e \<Rightarrow> Inl e
      | Inr ro \<Rightarrow>
          (case not_read_only xs of
             Inl e \<Rightarrow> Inl e
           | Inr ys \<Rightarrow> Inr (if \<not> ro then x # ys else ys)))"

text \<open>The loop that assigns \<^verbatim>\<open>vehicle\<close> once for each account of the list.\<close>

fun scan_accounts :: "pyobj list \<Rightarrow> string \<Rightarrow> vehicle option \<Rightarrow> exc + vehicle option" where
  "scan_accounts [] v found = Inr found"
| "scan_accounts (x # xs) v found =
     (case get_vehicle x v of
        Inl e \<Rightarrow> Inl e
      | Inr found' \<Rightarrow> scan_accounts xs v found')"

record service_call =
  service :: string
  vin :: string

definition execute_service :: "hass \<Rightarrow> service_call \<Rightarrow> exc option \<times> hass" where
  "execute_service h call =
     (case data h of
        None \<Rightarrow> (Some KeyError, h)
      | Some d \<Rightarrow>
          (case not_read_only (dict_iter d) of
             Inl e \<Rightarrow> (Some e, h)
           | Inr accounts \<Rightarrow>
               (case scan_accounts accounts (vin call) None of
                  Inl e \<Rightarrow> (Some e, h)
                | Inr None \<Rightarrow> (None, h\<lparr>logged := logged h @ [ErrorNoVehicle (vin call)]\<rparr>)
                | Inr (Some vehicle) \<Rightarrow>
                    (case map_of SERVICE_MAP (service call) of
                       None \<Rightarrow> (Some KeyError, h)
                     | Some function_name \<Rightarrow>
                         (None, h\<lparr>remote_calls :=
                            remote_calls h @ [(vehicle_vin vehicle, function_name)]\<rparr>)))))"

section \<open>Setting up an account\<close>

text \<open>\<^verbatim>\<open>hass.services.register\<close>: a name registered again replaces its handler.\<close>

definition register :: "string list \<Rightarrow> string \<Rightarrow> string list" where
  "register reg s = (if s \<in> set reg then reg else reg @ [s])"

definition setup_account :: "ext \<Rightarrow> config \<Rightarrow> hass \<Rightarrow> string \<Rightarrow> (exc + bmw_account) \<times> hass" where
  "setup_account env account_config h nm =
     (let h1 = h\<lparr>logged := logged h @ [DebugAdding nm]\<rparr> in
      case connect env (username account_config) (password account_config) (region account_config) of
        Inl e \<Rightarrow> (Inl e, h1)
      | Inr s \<Rightarrow>
          (let cd_account = \<lparr>read_only = conf_read_only account_config, account = s,
                              name = nm, update_listeners = []\<rparr>;
               h2 = (if \<not> conf_read_only account_config
                     then h1\<lparr>services := foldl register (services h1) (map fst SERVICE_MAP)\<rparr>
                     else h1);
               now = utcnow env;
               h3 = h2\<lparr>time_trackers :=
                      time_trackers h2 @ [(nm, fst (phase now), snd (phase now))]\<rparr>
           in (Inr cd_account, h3)))"

section \<open>The lifecycle adapter\<close>

text \<open>\<^verbatim>\<open>hass.data.setdefault(DOMAIN, {})\<close>.\<close>

definition setdefault :: "(string \<times> bmw_account) list option \<Rightarrow> (string \<times> bmw_account) list" where
  "setdefault m = (case m of None \<Rightarrow> [] | Some d \<Rightarrow> d)"

text \<open>
  The loop of \<^verbatim>\<open>_update_all\<close> over \<^verbatim>\<open>list(hass.data[DOMAIN].values())\<close>: each
  account is refreshed in turn, and the first exception that leaves an \<^verbatim>\<open>update\<close> ends
  the loop.
\<close>

fun update_accounts ::
  "ext \<Rightarrow> (string \<times> bmw_account) list \<Rightarrow> hass \<Rightarrow> exc option \<times> (string \<times> bmw_account) list \<times> hass"
where
  "update_accounts env [] h = (None, [], h)"
| "update_accounts env ((k, cd_account) # rest) h =
     (case update env cd_account h of
        (Some e, a', h') \<Rightarrow> (Some e, (k, a') # rest, h')
      | (None, a', h') \<Rightarrow>
          (case update_accounts env rest h' of
             (r, rest', h'') \<Rightarrow> (r, (k, a') # rest', h'')))"

definition update_all :: "ext \<Rightarrow> hass \<Rightarrow> exc option \<times> hass" where
  "update_all env h =
     (case data h of
        None \<Rightarrow> (Some KeyError, h)
      | Some d \<Rightarrow>
          (case update_accounts env d h of
             (r, d', h') \<Rightarrow> (r, h'\<lparr>data := Some d'\<rparr>)))"

text \<open>The handlers \<^verbatim>\<open>except Exception: raise ...\<close>.\<close>

definition except_Exception_raise :: "exc \<Rightarrow> exc \<Rightarrow> exc" where
  "except_Exception_raise e new = (if isinstance e ''Exception'' then new else e)"

text \<open>The tasks \<^verbatim>\<open>async_setup_entry\<close> creates for the platforms.\<close>

definition platform_tasks :: "string list" where
  "platform_tasks =
     map (\<lambda>platform. ''forward_entry_setup '' @ platform)
       (filter (\<lambda>platform. platform \<noteq> ''notify'') BMW_COMPONENTS)
     @ [''load_platform notify'']"

definition async_setup_entry :: "ext \<Rightarrow> hass \<Rightarrow> config_entry \<Rightarrow> (exc + bool) \<times> hass" where
  "async_setup_entry env h entry =
     (let h0 = h\<lparr>data := Some (setdefault (data h))\<rparr> in
      case setup_account env (entry_data entry) h0 (username (entry_data entry)) of
        (Inl e, h1) \<Rightarrow> (Inl (except_Exception_raise e ConfigEntryNotReady), h1)
      | (Inr acc, h1) \<Rightarrow>
          (case update env acc h1 of
             (Some e, acc', h2) \<Rightarrow> (Inl (except_Exception_raise e ConfigEntryNotReady), h2)
           | (None, acc', h2) \<Rightarrow>
               (let h3 = h2\<lparr>data := Some (AList.update (entry_id entry) acc' (setdefault (data h2)))\<rparr>;
                    h4 = h3\<lparr>services := register (services h3) SERVICE_UPDATE_STATE\<rparr>
                in case update_all env h4 of
                     (Some e, h5) \<Rightarrow> (Inl e, h5)
                   | (None, h5) \<Rightarrow> (Inr True, h5\<lparr>tasks := tasks h5 @ platform_tasks\<rparr>))))"

text \<open>\<^verbatim>\<open>hass.services.remove\<close> on the registry.\<close>

definition remove_services :: "string list \<Rightarrow> string list \<Rightarrow> string list" where
  "remove_services reg names = filter (\<lambda>s. s \<notin> set names) reg"

definition async_unload_entry :: "ext \<Rightarrow> hass \<Rightarrow> config_entry \<Rightarrow> (exc + bool) \<times> hass" where
  "async_unload_entry env h entry =
     (let unload_ok = list_all (forward_entry_unload env) BMW_COMPONENTS in
      case data h of
        None \<Rightarrow> (Inl KeyError, h)
      | Some d \<Rightarrow>
          (let names = map fst SERVICE_MAP @ [SERVICE_UPDATE_STATE];
               last_account = (length d = 1);
               unload_services = (if last_account then list_all (services_remove env) names else True);
               h1 = (if last_account then h\<lparr>services := remove_services (services h) names\<rparr> else h)
           in if unload_ok \<and> unload_services
              then (case map_of d (entry_id entry) of
                      None \<Rightarrow> (Inl KeyError, h1)
                    | Some a \<Rightarrow> (Inr unload_ok, h1\<lparr>data := Some (AList.delete (entry_id entry) d)\<rparr>))
              else (Inr unload_ok, h1)))"

section \<open>The config flow\<close>

datatype flow_result =
  CreateEntry string config
  | ShowForm "(string \<times> string) list"
  | Abort string

definition validate_input :: "ext \<Rightarrow> hass \<Rightarrow> config \<Rightarrow> (exc + string) \<times> hass" where
  "validate_input env h d =
     (case setup_account env d h (username d) of
        (Inl e, h1) \<Rightarrow> (Inl (except_Exception_raise e InvalidAuth), h1)
      | (Inr acc, h1) \<Rightarrow>
          (case update env acc h1 of
             (Some e, acc', h2) \<Rightarrow> (Inl (except_Exception_raise e InvalidAuth), h2)
           | (None, acc', h2) \<Rightarrow> (Inr (username d), h2)))"

definition async_step_user :: "ext \<Rightarrow> hass \<Rightarrow> config option \<Rightarrow> (exc + flow_result) \<times> hass" where
  "async_step_user env h user_input =
     (case user_input of
        None \<Rightarrow> (Inr (ShowForm []), h)
      | Some ui \<Rightarrow>
          (let unique_id = region ui @ ''-'' @ username ui in
           if unique_id \<in> set (configured_ids env) then (Inr (Abort ''already_configured''), h)
           else
             (case validate_input env h ui of
                (Inr title, h1) \<Rightarrow> (Inr (CreateEntry title ui), h1)
              | (Inl e, h1) \<Rightarrow>
                  if isinstance e ''CannotConnect''
                    then (Inr (ShowForm [(''base'', ''cannot_connect'')]), h1)
                  else if isinstance e ''InvalidAuth'' \<or> isinstance e ''OSError''
                    then (Inr (ShowForm [(''base'', ''invalid_auth'')]), h1)
                  else if isinstance e ''Exception''
                    then (Inr (ShowForm [(''base'', ''unknown'')]),
                          h1\<lparr>logged := logged h1 @ [ExceptionUnexpected]\<rparr>)
                  else (Inl e, h1))))"

section \<open>Example states\<close>

text \<open>
  Concrete inputs for the closed theorems below: a host with nothing registered, an account
  holding one vehicle, a host with that account as its only entry, and vendors that answer,
  drop the connection during a refresh (leaving the session alone, or having emptied its
  snapshot first), drop it during the login, or fail otherwise.
\<close>

definition quiet_hass :: hass where
  "quiet_hass = \<lparr>data = None, services = [], time_trackers = [], tasks = [], logged = [],
                  notified = [], remote_calls = []\<rparr>"

definition car :: vehicle where
  "car = \<lparr>vehicle_vin = ''WBA1234''\<rparr>"

definition garage :: session where
  "garage = \<lparr>vehicles = [car]\<rparr>"

definition wrapper :: "listener list \<Rightarrow> bmw_account" where
  "wrapper ls = \<lparr>read_only = False, account = garage, name = ''a'', update_listeners = ls\<rparr>"

definition one_account :: hass where
  "one_account = quiet_hass\<lparr>data := Some [(''entry1'', wrapper [])],
                   services := map fst SERVICE_MAP @ [SERVICE_UPDATE_STATE]\<rparr>"

definition owner :: config where
  "owner = \<lparr>username = ''a'', password = ''b'', region = ''north_america'', conf_read_only = False\<rparr>"

definition entry1 :: config_entry where
  "entry1 = \<lparr>entry_id = ''entry1'', entry_data = owner\<rparr>"

definition reachable_vendor :: ext where
  "reachable_vendor =
     \<lparr>connect = (\<lambda>u p r. Inr garage), update_vehicle_states = (\<lambda>s. (None, s)),
      utcnow = 1600000000000000, forward_entry_unload = (\<lambda>p. True),
      services_remove = (\<lambda>s. False), configured_ids = []\<rparr>"

definition unreachable_portal :: ext where
  "unreachable_portal = reachable_vendor\<lparr>update_vehicle_states := (\<lambda>s. (Some ConnectionError, s))\<rparr>"

definition forgetful_vendor :: ext where
  "forgetful_vendor =
     reachable_vendor\<lparr>update_vehicle_states := (\<lambda>s. (Some ConnectionError, s\<lparr>vehicles := []\<rparr>))\<rparr>"

definition refused_login :: ext where
  "refused_login = reachable_vendor\<lparr>connect := (\<lambda>u p r. Inl ConnectionError)\<rparr>"

definition broken_vendor :: ext where
  "broken_vendor = reachable_vendor\<lparr>update_vehicle_states := (\<lambda>s. (Some ValueError, s))\<rparr>"

section \<open>Listeners and the refresh\<close>

lemma call_listeners_all_ok:
  "(\<forall>l\<in>set ls. outcome l = None) \<Longrightarrow>
   call_listeners ls h = (None, h\<lparr>notified := notified h @ map lid ls\<rparr>)"
  by (induction ls arbitrary: h) simp_all

lemma call_listeners_first_raise:
  "(\<forall>p\<in>set pre. outcome p = None) \<Longrightarrow> outcome l = Some e \<Longrightarrow>
   call_listeners (pre @ l # post) h
     = (Some e, h\<lparr>notified := notified h @ map lid pre @ [lid l]\<rparr>)"
  by (induction pre arbitrary: h) simp_all


lemma add_update_listeners_order:
  "update_listeners (foldl add_update_listener acc ls) = update_listeners acc @ ls"
  by (induction ls arbitrary: acc) (simp_all add: add_update_listener_def)

lemma add_update_listeners_account:
  "account (foldl add_update_listener acc ls) = account acc"
  by (induction ls arbitrary: acc) (simp_all add: add_update_listener_def)



text \<open>
  C3, as amended. When the vendor's refresh succeeds and no registered listener raises,
  \<open>update\<close> returns normally and has called the listeners once each, in the order in which
  \<open>add_update_listener\<close> registered them.
\<close>

theorem update_notifies_in_registration_order:
  assumes "fst (update_vehicle_states env (account acc0)) = None"
    and "update_listeners acc0 = []"
    and "\<forall>l\<in>set ls. outcome l = None"
  shows "fst (update env (foldl add_update_listener acc0 ls) h) = None \<and>
         notified (snd (snd (update env (foldl add_update_listener acc0 ls) h)))
           = notified h @ map lid ls"
proof -
  let ?acc = "foldl add_update_listener acc0 ls"
  have ls: "update_listeners ?acc = ls"
    using assms(2) by (simp add: add_update_listeners_order)
  obtain s' where s: "update_vehicle_states env (account ?acc) = (None, s')"
    using assms(1) add_update_listeners_account [of acc0 ls]
    by (cases "update_vehicle_states env (account acc0)") simp
  show ?thesis
    using assms(3) by (simp add: update_def Let_def s ls call_listeners_all_ok)
qed

text \<open>
  C3, a witness: two listeners registered as 7 and then 3, neither raising, are called as
  7 and then 3.
\<close>

theorem update_notifies_in_registration_order_witness:
  "fst (update reachable_vendor
          (foldl add_update_listener (wrapper []) [Listener 7 None, Listener 3 None]) quiet_hass) = None \<and>
   notified (snd (snd (update reachable_vendor
          (foldl add_update_listener (wrapper []) [Listener 7 None, Listener 3 None]) quiet_hass)))
     = [7, 3]"
  using update_notifies_in_registration_order
    [of reachable_vendor "wrapper []" "[Listener 7 None, Listener 3 None]" quiet_hass]
  by (simp add: reachable_vendor_def wrapper_def quiet_hass_def)

text \<open>
  C3, the counterexample to the claim as stated: the refresh succeeds, listeners 0 and 1 are
  registered, listener 0 raises \<^verbatim>\<open>ValueError\<close>, and listener 1 is never called.
\<close>

theorem update_skips_listeners_after_a_raise:
  "fst (update_vehicle_states reachable_vendor
          (account (wrapper [Listener 0 (Some ValueError), Listener 1 None]))) = None \<and>
   map lid (update_listeners (wrapper [Listener 0 (Some ValueError), Listener 1 None])) = [0, 1] \<and>
   notified (snd (snd (update reachable_vendor
          (wrapper [Listener 0 (Some ValueError), Listener 1 None]) quiet_hass))) = [0]"
  by (simp add: update_def reachable_vendor_def wrapper_def quiet_hass_def except_OSError_def
      isinstance_def ValueError_def)

text \<open>
  C4, as amended. When the refresh succeeds and the first listener to raise raises \<open>e\<close>,
  \<open>update\<close> passes \<open>e\<close> to its caller unless \<open>e\<close> is an \<^verbatim>\<open>OSError\<close>. An
  \<^verbatim>\<open>OSError\<close> raised by a listener meets the handler of the refresh: the error and
  the exception are logged and \<open>update\<close> returns normally. In both cases the listeners up
  to and including the one that raised have been called, and no other.
\<close>

theorem update_listener_exception:
  assumes "fst (update_vehicle_states env (account acc)) = None"
    and "update_listeners acc = pre @ l # post"
    and "\<forall>p\<in>set pre. outcome p = None"
    and "outcome l = Some e"
  shows "fst (update env acc h) = (if isinstance e ''OSError'' then None else Some e) \<and>
         logged (snd (snd (update env acc h)))
           = logged h @ [DebugUpdating (name acc) (length (update_listeners acc))]
               @ (if isinstance e ''OSError'' then [ErrorNoConnection, ExceptionLogged e] else []) \<and>
         notified (snd (snd (update env acc h))) = notified h @ map lid pre @ [lid l]"
proof -
  obtain s' where s: "update_vehicle_states env (account acc) = (None, s')"
    using assms(1) by (cases "update_vehicle_states env (account acc)") simp
  show ?thesis
    using assms(3,4)
    by (simp add: update_def Let_def s assms(2) call_listeners_first_raise except_OSError_def)
qed

text \<open>
  C4, a witness for both cases: the second of three listeners raises \<^verbatim>\<open>ValueError\<close>,
  which reaches the caller of \<open>update\<close> with nothing logged but the debug line; it raises
  \<^verbatim>\<open>ConnectionError\<close>, which is logged and swallowed. The third listener is not
  called in either case.
\<close>

theorem update_listener_exception_witness:
  "fst (update reachable_vendor
          (wrapper [Listener 0 None, Listener 1 (Some ValueError), Listener 2 None])
          quiet_hass) = Some ValueError \<and>
   logged (snd (snd (update reachable_vendor
          (wrapper [Listener 0 None, Listener 1 (Some ValueError), Listener 2 None])
          quiet_hass))) = [DebugUpdating ''a'' 3] \<and>
   notified (snd (snd (update reachable_vendor
          (wrapper [Listener 0 None, Listener 1 (Some ValueError), Listener 2 None])
          quiet_hass))) = [0, 1] \<and>
   fst (update reachable_vendor
          (wrapper [Listener 0 None, Listener 1 (Some ConnectionError), Listener 2 None])
          quiet_hass) = None \<and>
   logged (snd (snd (update reachable_vendor
          (wrapper [Listener 0 None, Listener 1 (Some ConnectionError), Listener 2 None])
          quiet_hass)))
     = [DebugUpdating ''a'' 3, ErrorNoConnection, ExceptionLogged ConnectionError] \<and>
   notified (snd (snd (update reachable_vendor
          (wrapper [Listener 0 None, Listener 1 (Some ConnectionError), Listener 2 None])
          quiet_hass))) = [0, 1]"
  using update_listener_exception
    [of reachable_vendor "wrapper [Listener 0 None, Listener 1 (Some ValueError), Listener 2 None]"
        "[Listener 0 None]" "Listener 1 (Some ValueError)" "[Listener 2 None]" ValueError quiet_hass]
    update_listener_exception
    [of reachable_vendor
        "wrapper [Listener 0 None, Listener 1 (Some ConnectionError), Listener 2 None]"
        "[Listener 0 None]" "Listener 1 (Some ConnectionError)" "[Listener 2 None]"
        ConnectionError quiet_hass]
  by (simp add: reachable_vendor_def wrapper_def quiet_hass_def isinstance_def ValueError_def
      ConnectionError_def)

text \<open>
  C4, the counterexample to the claim as stated: a listener raises \<^verbatim>\<open>ConnectionError\<close>,
  a subclass of \<^verbatim>\<open>OSError\<close>, and no exception reaches the caller of \<open>update\<close>.
\<close>

theorem update_catches_listener_OSError:
  "outcome (Listener 0 (Some ConnectionError)) = Some ConnectionError \<and>
   fst (update reachable_vendor (wrapper [Listener 0 (Some ConnectionError)]) quiet_hass) = None"
  by (simp add: update_def reachable_vendor_def wrapper_def quiet_hass_def except_OSError_def
      isinstance_def ConnectionError_def)

text \<open>
  C5, as amended. When the vendor's refresh raises an \<^verbatim>\<open>OSError\<close>, \<open>update\<close>
  returns normally; the host state changes only by three log entries, the error among
  them, so no listener is called; and \<open>update\<close> writes nothing to the session: afterwards
  the account holds the session, with its snapshot, exactly as the vendor's failed call
  left it.
\<close>

theorem update_swallows_transport_error:
  assumes "update_vehicle_states env (account acc) = (Some e, s')"
    and "isinstance e ''OSError''"
  shows "update env acc h =
           (None, acc\<lparr>account := s'\<rparr>,
            h\<lparr>logged := logged h @ [DebugUpdating (name acc) (length (update_listeners acc)),
                                     ErrorNoConnection, ExceptionLogged e]\<rparr>) \<and>
         notified (snd (snd (update env acc h))) = notified h \<and>
         account (fst (snd (update env acc h))) = s'"
  using assms by (simp add: update_def Let_def except_OSError_def)

text \<open>
  C5, a witness: the connection drops during the refresh of an account with one listener,
  and the vendor has left the session alone.
\<close>

theorem update_swallows_transport_error_witness:
  "update unreachable_portal (wrapper [Listener 0 None]) quiet_hass =
     (None, wrapper [Listener 0 None],
      quiet_hass\<lparr>logged := [DebugUpdating ''a'' 1, ErrorNoConnection, ExceptionLogged ConnectionError]\<rparr>) \<and>
   notified (snd (snd (update unreachable_portal (wrapper [Listener 0 None]) quiet_hass))) = [] \<and>
   account (fst (snd (update unreachable_portal (wrapper [Listener 0 None]) quiet_hass))) = garage"
  using update_swallows_transport_error
    [of unreachable_portal "wrapper [Listener 0 None]" ConnectionError garage quiet_hass]
  by (simp add: unreachable_portal_def wrapper_def quiet_hass_def isinstance_def ConnectionError_def)

text \<open>
  C5, the counterexample to the claim as stated: the vendor's refresh empties its snapshot
  and then raises \<^verbatim>\<open>ConnectionError\<close>. \<open>update\<close> swallows the error and restores
  nothing: the account that held one vehicle holds none.
\<close>

theorem update_keeps_what_the_vendor_left:
  "fst (update_vehicle_states forgetful_vendor (account (wrapper [Listener 0 None])))
     = Some ConnectionError \<and>
   isinstance ConnectionError ''OSError'' \<and>
   fst (update forgetful_vendor (wrapper [Listener 0 None]) quiet_hass) = None \<and>
   vehicles (account (wrapper [Listener 0 None])) = [car] \<and>
   vehicles (account (fst (snd (update forgetful_vendor (wrapper [Listener 0 None]) quiet_hass)))) = []"
  by (simp add: update_def Let_def except_OSError_def forgetful_vendor_def reachable_vendor_def
      wrapper_def garage_def quiet_hass_def isinstance_def ConnectionError_def)

section \<open>The dispatcher on a configured host\<close>

text \<open>
  X1. Whenever the map of live accounts holds at least one entry, \<open>execute_service\<close> raises
  \<^verbatim>\<open>AttributeError\<close> and changes nothing, whatever the command and the VIN: the
  comprehension walks the keys of the dictionary, and a string has no \<^verbatim>\<open>read_only\<close>.
\<close>

theorem execute_service_configured:
  "data h = Some (p # d) \<Longrightarrow> execute_service h call = (Some AttributeError, h)"
  by (cases p) (simp add: execute_service_def dict_iter_def)

text \<open>X1, a witness: the host with one account, and the climate command.\<close>

theorem execute_service_configured_witness:
  "execute_service one_account \<lparr>service = ''activate_air_conditioning'', vin = ''WBA1234''\<rparr>
     = (Some AttributeError, one_account)"
  using execute_service_configured
    [of one_account "(''entry1'', wrapper [])" "[]"
        "\<lparr>service = ''activate_air_conditioning'', vin = ''WBA1234''\<rparr>"]
  by (simp add: one_account_def)

text \<open>
  X2. When the map of live accounts exists and is empty, \<open>execute_service\<close> logs that no
  vehicle was found for the VIN and returns normally; nothing else changes, so no
  remote-control method is called.
\<close>

theorem execute_service_no_accounts:
  "data h = Some [] \<Longrightarrow>
   execute_service h call = (None, h\<lparr>logged := logged h @ [ErrorNoVehicle (vin call)]\<rparr>)"
  by (simp add: execute_service_def dict_iter_def)

text \<open>X2, a witness: a host whose map is empty.\<close>

theorem execute_service_no_accounts_witness:
  "execute_service (quiet_hass\<lparr>data := Some []\<rparr>) \<lparr>service = ''light_flash'', vin = ''WBA1234''\<rparr>
     = (None, quiet_hass\<lparr>data := Some [], logged := [ErrorNoVehicle ''WBA1234'']\<rparr>)"
  using execute_service_no_accounts
    [of "quiet_hass\<lparr>data := Some []\<rparr>" "\<lparr>service = ''light_flash'', vin = ''WBA1234''\<rparr>"]
  by (simp add: quiet_hass_def)

text \<open>
  C1, the code at the failing input. The host has one entry, a non-read-only account whose
  session holds the vehicle \<^verbatim>\<open>WBA1234\<close>. Dispatching \<^verbatim>\<open>light_flash\<close> for that VIN
  raises \<^verbatim>\<open>AttributeError\<close> and leaves the host state as it was: no remote-control
  method is called.
\<close>

theorem execute_service_known_vin:
  "map vehicle_vin (vehicles (account (wrapper []))) = [''WBA1234''] \<and>
   execute_service one_account \<lparr>service = ''light_flash'', vin = ''WBA1234''\<rparr>
     = (Some AttributeError, one_account)"
  by (simp add: execute_service_def dict_iter_def one_account_def wrapper_def garage_def car_def)

text \<open>
  C2, the code at the failing input. On the same host, dispatching \<^verbatim>\<open>sound_horn\<close> for
  a VIN no account holds raises \<^verbatim>\<open>AttributeError\<close> to the caller and logs nothing.
\<close>

theorem execute_service_unknown_vin:
  "''WBA9999'' \<notin> set (map vehicle_vin (vehicles (account (wrapper [])))) \<and>
   execute_service one_account \<lparr>service = ''sound_horn'', vin = ''WBA9999''\<rparr>
     = (Some AttributeError, one_account)"
  by (simp add: execute_service_def dict_iter_def one_account_def wrapper_def garage_def car_def)

section \<open>The phase of the scheduler\<close>

lemma minute_of_second: "minute t = ((t div 1000000) div 60) mod 60"
proof -
  have "t div 60000000 = t div (1000000 * 60)" by simp
  also have "\<dots> = (t div 1000000) div 60" by (simp only: div_mult2_eq)
  finally show ?thesis by (simp add: minute_def)
qed

lemma range_py_head: "start < stop \<Longrightarrow> 0 < step \<Longrightarrow> hd (range_py start stop step) = start"
  by (subst range_py.simps) simp

lemma setup_account_tracker:
  "connect env (username c) (password c) (region c) = Inr s \<Longrightarrow>
   time_trackers (snd (setup_account env c h nm))
     = time_trackers h @ [(nm, fst (phase (utcnow env)), snd (phase (utcnow env)))]"
  by (simp add: setup_account_def Let_def)

text \<open>
  C7, as amended. Two setup instants get the same phase exactly when their minutes agree
  modulo the update interval and their seconds of the minute agree. So two setups with the
  same second of the minute get different phases exactly when their minutes differ modulo
  five, and two setups within one second of the clock get the same phase.
\<close>

theorem phase_eq_iff:
  "phase t1 = phase t2 \<longleftrightarrow>
     minute t1 mod UPDATE_INTERVAL = minute t2 mod UPDATE_INTERVAL \<and> second t1 = second t2"
proof
  assume eq: "phase t1 = phase t2"
  have b1: "minute t1 mod 5 < 60" and b2: "minute t2 mod 5 < 60"
    by (simp_all add: less_trans [OF mod_less_divisor])
  from eq have "hd (range_py (minute t1 mod 5) 60 5) = hd (range_py (minute t2 mod 5) 60 5)"
    by (simp add: phase_def UPDATE_INTERVAL_def)
  then have "minute t1 mod 5 = minute t2 mod 5"
    using b1 b2 by (simp add: range_py_head)
  with eq show "minute t1 mod UPDATE_INTERVAL = minute t2 mod UPDATE_INTERVAL \<and> second t1 = second t2"
    by (simp add: phase_def UPDATE_INTERVAL_def)
next
  assume "minute t1 mod UPDATE_INTERVAL = minute t2 mod UPDATE_INTERVAL \<and> second t1 = second t2"
  then show "phase t1 = phase t2" by (simp add: phase_def)
qed

text \<open>
  C7, the counterexample to the claim read for setups at the same second of the minute:
  2020-09-13 12:26:40 and 12:31:40 UTC have the second 40 in common and the minutes 26 and
  31, which differ, and they get the same phase.
\<close>

theorem phase_repeats_after_five_minutes:
  "second 1600000000000000 = second 1600000300000000 \<and>
   minute 1600000000000000 = 26 \<and> minute 1600000300000000 = 31 \<and>
   phase 1600000000000000 = phase 1600000300000000"
  by (simp add: phase_def minute_def second_def UPDATE_INTERVAL_def)

text \<open>
  X3. Two setups whose instants fall in the same second of the clock (they differ in the
  microseconds only) get the same phase.
\<close>

theorem same_clock_second_same_phase:
  assumes "t1 div 1000000 = t2 div 1000000"
  shows "phase t1 = phase t2"
proof -
  have m: "minute t1 = minute t2" using assms by (simp add: minute_of_second)
  have s: "second t1 = second t2" using assms by (simp add: second_def)
  from m s show ?thesis by (simp add: phase_def)
qed

text \<open>X3, a witness: the first and the last microsecond of 2020-09-13 12:26:40 UTC.\<close>

theorem same_clock_second_same_phase_witness:
  "(1600000000000000::nat) div 1000000 = 1600000000999999 div 1000000 \<and>
   phase 1600000000000000 = phase 1600000000999999"
  using same_clock_second_same_phase [of 1600000000000000 1600000000999999] by simp

section \<open>Setting up an entry\<close>




text \<open>
  C6, as amended. When the account is built and its first refresh raises an exception of
  class \<^verbatim>\<open>Exception\<close> that is not an \<^verbatim>\<open>OSError\<close>, \<open>async_setup_entry\<close> raises
  \<^verbatim>\<open>ConfigEntryNotReady\<close> and the map of live accounts is as it was.
\<close>

theorem setup_entry_not_ready:
  assumes "connect env (username (entry_data entry)) (password (entry_data entry))
             (region (entry_data entry)) = Inr s"
    and "fst (update_vehicle_states env s) = Some e"
    and "\<not> isinstance e ''OSError''"
    and "isinstance e ''Exception''"
  shows "fst (async_setup_entry env h entry) = Inl ConfigEntryNotReady \<and>
         data (snd (async_setup_entry env h entry)) = Some (setdefault (data h))"
proof -
  obtain s' where s: "update_vehicle_states env s = (Some e, s')"
    using assms(2) by (cases "update_vehicle_states env s") simp
  show ?thesis
    using assms(1,3,4)
    by (simp add: async_setup_entry_def setup_account_def update_def Let_def s except_OSError_def
        except_Exception_raise_def)
qed

text \<open>C6, a witness: the vendor's refresh raises \<^verbatim>\<open>ValueError\<close>.\<close>

theorem setup_entry_not_ready_witness:
  "fst (async_setup_entry broken_vendor quiet_hass entry1) = Inl ConfigEntryNotReady \<and>
   data (snd (async_setup_entry broken_vendor quiet_hass entry1)) = Some []"
  using setup_entry_not_ready [of broken_vendor entry1 garage ValueError quiet_hass]
  by (simp add: broken_vendor_def reachable_vendor_def isinstance_def ValueError_def
      setdefault_def quiet_hass_def)

text \<open>
  C6, the counterexample to the claim as stated: the vendor's refresh raises
  \<^verbatim>\<open>ConnectionError\<close>, an \<^verbatim>\<open>OSError\<close>; \<open>update\<close> swallows it,
  \<open>async_setup_entry\<close> returns \<^verbatim>\<open>True\<close> and the entry is in the map.
\<close>

theorem setup_entry_survives_transport_error:
  "fst (update_vehicle_states unreachable_portal garage) = Some ConnectionError \<and>
   isinstance ConnectionError ''OSError'' \<and>
   fst (async_setup_entry unreachable_portal quiet_hass entry1) = Inr True \<and>
   map fst (setdefault (data (snd (async_setup_entry unreachable_portal quiet_hass entry1))))
     = [''entry1'']"
  by (simp add: async_setup_entry_def setup_account_def update_def update_all_def
      except_OSError_def setdefault_def unreachable_portal_def reachable_vendor_def quiet_hass_def
      entry1_def owner_def isinstance_def ConnectionError_def Let_def)



section \<open>The config flow and the unload on concrete inputs\<close>

text \<open>
  C8, the code at the failing input. The login of the probe fails with
  \<^verbatim>\<open>ConnectionError\<close>, an \<^verbatim>\<open>OSError\<close>; the form comes back with the error
  \<^verbatim>\<open>invalid_auth\<close>, not \<^verbatim>\<open>cannot_connect\<close>.
\<close>

theorem probe_connection_failure_is_invalid_auth:
  "connect refused_login (username owner) (password owner) (region owner) = Inl ConnectionError \<and>
   isinstance ConnectionError ''OSError'' \<and>
   async_step_user refused_login quiet_hass (Some owner)
     = (Inr (ShowForm [(''base'', ''invalid_auth'')]), quiet_hass\<lparr>logged := [DebugAdding ''a'']\<rparr>)"
  by (simp add: async_step_user_def validate_input_def setup_account_def Let_def
      except_Exception_raise_def refused_login_def reachable_vendor_def quiet_hass_def owner_def
      isinstance_def ConnectionError_def InvalidAuth_def)

text \<open>
  C9, the code at the failing input. The entry unloaded is the only account; every platform
  unloads, and removing the services returns a false value. The services are removed, the
  account stays in the map, and \<open>async_unload_entry\<close> returns \<^verbatim>\<open>True\<close>.
\<close>

theorem unload_hides_service_failure:
  "list_all (forward_entry_unload reachable_vendor) BMW_COMPONENTS \<and>
   \<not> list_all (services_remove reachable_vendor) (map fst SERVICE_MAP @ [SERVICE_UPDATE_STATE]) \<and>
   fst (async_unload_entry reachable_vendor one_account entry1) = Inr True \<and>
   data (snd (async_unload_entry reachable_vendor one_account entry1)) = data one_account \<and>
   services (snd (async_unload_entry reachable_vendor one_account entry1)) = []"
  by (simp add: async_unload_entry_def Let_def reachable_vendor_def one_account_def quiet_hass_def
      remove_services_def BMW_COMPONENTS_def SERVICE_MAP_def SERVICE_UPDATE_STATE_def entry1_def)

text \<open>
  X4. Unloading an entry that is in the map: the result is the conjunction of the platform
  unloads alone; the commands are removed exactly when the map holds one account; and the
  entry is deleted from the map exactly when the platform unloads and, for the last
  account, the removals of the commands all succeeded.
\<close>

theorem unload_entry_result:
  assumes "data h = Some d"
    and "map_of d (entry_id entry) = Some a"
  shows "fst (async_unload_entry env h entry)
           = Inr (list_all (forward_entry_unload env) BMW_COMPONENTS) \<and>
         services (snd (async_unload_entry env h entry))
           = (if length d = 1
              then remove_services (services h) (map fst SERVICE_MAP @ [SERVICE_UPDATE_STATE])
              else services h) \<and>
         data (snd (async_unload_entry env h entry))
           = Some (if list_all (forward_entry_unload env) BMW_COMPONENTS \<and>
                      (if length d = 1
                       then list_all (services_remove env) (map fst SERVICE_MAP @ [SERVICE_UPDATE_STATE])
                       else True)
                   then AList.delete (entry_id entry) d else d)"
  using assms by (simp add: async_unload_entry_def Let_def)

text \<open>X4, a witness: the only account is unloaded and every step succeeds.\<close>

theorem unload_entry_result_witness:
  "fst (async_unload_entry (reachable_vendor\<lparr>services_remove := (\<lambda>s. True)\<rparr>) one_account entry1)
     = Inr True \<and>
   services (snd (async_unload_entry (reachable_vendor\<lparr>services_remove := (\<lambda>s. True)\<rparr>)
                    one_account entry1)) = [] \<and>
   data (snd (async_unload_entry (reachable_vendor\<lparr>services_remove := (\<lambda>s. True)\<rparr>)
                    one_account entry1)) = Some []"
  using unload_entry_result
    [of one_account "[(''entry1'', wrapper [])]" entry1 "wrapper []"
        "reachable_vendor\<lparr>services_remove := (\<lambda>s. True)\<rparr>"]
  by (simp add: one_account_def quiet_hass_def entry1_def reachable_vendor_def remove_services_def
      BMW_COMPONENTS_def SERVICE_MAP_def SERVICE_UPDATE_STATE_def AList.delete_eq)

text \<open>
  X5. In the config flow, for an identity not yet configured, every exception of class
  \<^verbatim>\<open>Exception\<close> that leaves \<open>setup_account\<close> or the first \<open>update\<close> of the probe
  comes back as the form error \<^verbatim>\<open>invalid_auth\<close>, and no entry is created.
\<close>

theorem probe_failure_shows_invalid_auth:
  assumes "region ui @ ''-'' @ username ui \<notin> set (configured_ids env)"
    and "fst (setup_account env ui h (username ui)) = Inl e \<or>
         (\<exists>acc h1. setup_account env ui h (username ui) = (Inr acc, h1) \<and>
                    fst (update env acc h1) = Some e)"
    and "isinstance e ''Exception''"
  shows "fst (async_step_user env h (Some ui)) = Inr (ShowForm [(''base'', ''invalid_auth'')])"
proof -
  have v: "fst (validate_input env h ui) = Inl InvalidAuth"
    using assms(2,3)
    by (auto simp: validate_input_def except_Exception_raise_def
        split: prod.splits sum.splits option.splits)
  obtain h1 where "validate_input env h ui = (Inl InvalidAuth, h1)"
    using v by (cases "validate_input env h ui") simp
  then show ?thesis
    using assms(1)
    by (simp add: async_step_user_def Let_def isinstance_def InvalidAuth_def)
qed

text \<open>X5, a witness: the refresh of the probe raises \<^verbatim>\<open>ValueError\<close>.\<close>

theorem probe_failure_shows_invalid_auth_witness:
  "fst (async_step_user broken_vendor quiet_hass (Some owner))
     = Inr (ShowForm [(''base'', ''invalid_auth'')])"
proof -
  obtain acc h1 where b: "setup_account broken_vendor owner quiet_hass (username owner) = (Inr acc, h1)"
    and c: "account acc = garage" and d: "update_listeners acc = []"
    by (simp add: setup_account_def Let_def broken_vendor_def reachable_vendor_def)
  have e: "fst (update broken_vendor acc h1) = Some ValueError"
    by (simp add: update_def Let_def c d broken_vendor_def reachable_vendor_def except_OSError_def
        isinstance_def ValueError_def)
  from b e probe_failure_shows_invalid_auth [of owner broken_vendor quiet_hass ValueError]
  show ?thesis
    by (simp add: broken_vendor_def reachable_vendor_def isinstance_def ValueError_def)
qed

text \<open>
  X6. In the config flow, a connection that drops during the refresh of the probe is
  swallowed by \<open>update\<close>: the probe passes and the entry is created.
\<close>

theorem probe_transport_error_creates_entry:
  "fst (update_vehicle_states unreachable_portal garage) = Some ConnectionError \<and>
   fst (async_step_user unreachable_portal quiet_hass (Some owner)) = Inr (CreateEntry ''a'' owner)"
  by (simp add: async_step_user_def validate_input_def setup_account_def update_def Let_def
      except_OSError_def unreachable_portal_def reachable_vendor_def quiet_hass_def owner_def
      isinstance_def ConnectionError_def)

end
